theory Spec2Isabelle
  imports Complex_Main "HOL-Library.AList"
begin

section \<open>Python values and failures\<close>

text \<open>
  The program is \<^verbatim>\<open>recommendmovie.py\<close>. Ratings and every derived quantity are Python
  floats; they are modelled as real numbers, so rounding error, overflow, infinities and
  NaN are outside the model. A \<^verbatim>\<open>dict\<close> keeps its keys in insertion order and its
  iteration order is observable in the program, so a dict is an association list with
  distinct keys: \<^verbatim>\<open>d[k] = v\<close> is \<open>AList.update k v d\<close> (replace in place, or append),
  \<^verbatim>\<open>k in d\<close> and \<^verbatim>\<open>d[k]\<close> are \<open>map_of d k\<close>. Every exception the program can raise
  is a value of \<open>pyerror\<close>, and a computation that may raise returns \<open>pyerror + 'a\<close>.
\<close>

datatype pyerror = ZeroDivisionError | KeyError | ValueError

type_synonym mid = string
type_synonym uid = string
type_synonym genre = string
type_synonym ratings = "(mid \<times> real) list"
type_synonym vector = "(string \<times> real) list"

definition and_then :: "pyerror + 'a \<Rightarrow> ('a \<Rightarrow> pyerror + 'b) \<Rightarrow> pyerror + 'b" where
  "and_then m f = (case m of Inl e \<Rightarrow> Inl e | Inr x \<Rightarrow> f x)"

definition py_div :: "real \<Rightarrow> real \<Rightarrow> pyerror + real" where
  \<comment> \<open>\<^verbatim>\<open>a / b\<close> (true division)\<close>
  "py_div a b = (if b = 0 then Inl ZeroDivisionError else Inr (a / b))"

definition py_sqrt :: "real \<Rightarrow> pyerror + real" where
  \<comment> \<open>\<^verbatim>\<open>math.sqrt\<close>\<close>
  "py_sqrt x = (if x < 0 then Inl ValueError else Inr (sqrt x))"

definition py_log :: "real \<Rightarrow> pyerror + real" where
  \<comment> \<open>\<^verbatim>\<open>math.log\<close>\<close>
  "py_log x = (if x \<le> 0 then Inl ValueError else Inr (ln x))"

definition py_round :: "real \<Rightarrow> int" where
  \<comment> \<open>the built-in \<^verbatim>\<open>round\<close> with one argument: nearest integer, ties to the even one\<close>
  "py_round x =
     (let f = \<lfloor>x\<rfloor>; d = x - of_int f
      in if d < 1 / 2 then f else if 1 / 2 < d then f + 1 else if even f then f else f + 1)"

section \<open>Similarity and distance functions\<close>

definition pearson_correlation :: "vector \<Rightarrow> vector \<Rightarrow> real \<Rightarrow> real \<Rightarrow> pyerror + real" where
  "pearson_correlation our_vector other_vector our_avg other_avg =
     (let numer = fold (\<lambda>(mid, our_rating) numer.
                      case map_of other_vector mid of
                        Some other_rating \<Rightarrow> numer + (our_rating - our_avg) * (other_rating - other_avg)
                      | None \<Rightarrow> numer) our_vector 0;
          denom = sum_list (map (\<lambda>(_, rating). (rating - our_avg)\<^sup>2) our_vector);
          denom = denom * sum_list (map (\<lambda>(_, rating). (rating - other_avg)\<^sup>2) other_vector)
      in if denom = 0 then Inr 0 else and_then (py_sqrt denom) (py_div numer))"

definition cosine_similarity :: "vector \<Rightarrow> vector \<Rightarrow> pyerror + real" where
  "cosine_similarity our_vector other_vector =
     (let numer = fold (\<lambda>(key, our_score) numer.
                      case map_of other_vector key of
                        Some other_score \<Rightarrow> numer + our_score * other_score
                      | None \<Rightarrow> numer) our_vector 0
      in and_then (py_sqrt (sum_list (map (\<lambda>(_, rating). rating\<^sup>2) our_vector))) (\<lambda>denom.
         and_then (py_sqrt (sum_list (map (\<lambda>(_, rating). rating\<^sup>2) other_vector))) (\<lambda>other_norm.
         py_div numer (denom * other_norm))))"

definition euclidean_distance :: "vector \<Rightarrow> vector \<Rightarrow> pyerror + real" where
  "euclidean_distance our_vector other_vector =
     py_sqrt (sum_list (map (\<lambda>(key, our_score). (our_score - the (map_of other_vector key))\<^sup>2)
                (filter (\<lambda>(key, our_score). map_of other_vector key \<noteq> None) our_vector)))"

section \<open>Display rounding\<close>

definition round_stars :: "real \<Rightarrow> real" where
  "round_stars score = of_int (py_round (score * 2)) / 2"

section \<open>Genre weighting\<close>

record movie =
  title :: string
  genres :: "genre list"

type_synonym catalog = "mid \<Rightarrow> movie option"
type_synonym counts = "(genre \<times> int) list"

definition increment :: "genre \<Rightarrow> counts \<Rightarrow> counts" where
  \<comment> \<open>\<^verbatim>\<open>try: d[genre] += 1 except KeyError: d[genre] = 1\<close>\<close>
  "increment genre d =
     (case map_of d genre of
        Some c \<Rightarrow> AList.update genre (c + 1) d
      | None \<Rightarrow> AList.update genre 1 d)"

definition get_count :: "counts \<Rightarrow> genre \<Rightarrow> int" where
  \<comment> \<open>\<^verbatim>\<open>d.get(genre, 0)\<close>\<close>
  "get_count d genre = (case map_of d genre of Some c \<Rightarrow> c | None \<Rightarrow> 0)"

fun get_genre_frequencies_from :: "counts \<Rightarrow> ratings \<Rightarrow> catalog \<Rightarrow> pyerror + counts" where
  "get_genre_frequencies_from genre_frequencies [] movies = Inr genre_frequencies"
| "get_genre_frequencies_from genre_frequencies ((mid, _) # rest) movies =
     (case movies mid of
        None \<Rightarrow> Inl KeyError
      | Some m \<Rightarrow> get_genre_frequencies_from (fold increment (genres m) genre_frequencies) rest movies)"

definition get_genre_frequencies :: "ratings \<Rightarrow> catalog \<Rightarrow> pyerror + counts" where
  "get_genre_frequencies user_ratings movies = get_genre_frequencies_from [] user_ratings movies"

definition term_frequency :: "counts \<Rightarrow> genre \<Rightarrow> bool \<Rightarrow> bool \<Rightarrow> bool \<Rightarrow> pyerror + real" where
  "term_frequency genre_frequencies genre augmented boolean logarithmic =
     (if augmented then
        (if genre_frequencies = [] then Inl ValueError
         else and_then (py_div (real_of_int (get_count genre_frequencies genre))
                               (real_of_int (Max (set (map snd genre_frequencies)))))
                (\<lambda>q. Inr (1 / 2 + 1 / 2 * q)))
      else if boolean then Inr (if map_of genre_frequencies genre \<noteq> None then 1 else 0)
      else if logarithmic then py_log (1 + real_of_int (get_count genre_frequencies genre))
      else py_div (real_of_int (get_count genre_frequencies genre))
                  (real_of_int (sum_list (map snd genre_frequencies))))"

definition inverse_document_frequency :: "genre \<Rightarrow> counts \<Rightarrow> int \<Rightarrow> bool \<Rightarrow> pyerror + real" where
  "inverse_document_frequency genre corpus n smooth =
     (case map_of corpus genre of
        None \<Rightarrow> Inr 0
      | Some total_count \<Rightarrow>
          if smooth then and_then (py_div (real_of_int (1 + n)) (real_of_int total_count)) py_log
          else and_then (py_div (real_of_int n) (real_of_int total_count)) py_log)"

definition tf_idf ::
  "counts \<Rightarrow> genre \<Rightarrow> counts \<Rightarrow> int \<Rightarrow> bool \<Rightarrow> bool \<Rightarrow> bool \<Rightarrow> bool \<Rightarrow> pyerror + real" where
  "tf_idf genre_frequencies genre corpus n augmented boolean logarithmic smooth =
     and_then (term_frequency genre_frequencies genre augmented boolean logarithmic) (\<lambda>res.
     and_then (inverse_document_frequency genre corpus n smooth) (\<lambda>idf.
     Inr (res * idf)))"

text \<open>
  The two nested loops of \<^verbatim>\<open>get_genre_weight\<close> that fill \<^verbatim>\<open>other_vector\<close> and
  \<^verbatim>\<open>our_vector\<close>; \<open>other_score\<close> and \<open>our_score\<close> are the two \<^verbatim>\<open>tf_idf\<close> calls.
\<close>

fun vectors_genres ::
  "(genre \<Rightarrow> pyerror + real) \<Rightarrow> (genre \<Rightarrow> pyerror + real) \<Rightarrow> genre list \<Rightarrow> vector \<times> vector
     \<Rightarrow> pyerror + (vector \<times> vector)" where
  "vectors_genres other_score our_score [] vs = Inr vs"
| "vectors_genres other_score our_score (genre # gs) (other_vector, our_vector) =
     (if map_of our_vector genre = None then
        and_then (other_score genre) (\<lambda>t_other.
        and_then (our_score genre) (\<lambda>t_our.
        vectors_genres other_score our_score gs
          (AList.update genre t_other other_vector, AList.update genre t_our our_vector)))
      else vectors_genres other_score our_score gs (other_vector, our_vector))"

fun vectors_movies ::
  "(genre \<Rightarrow> pyerror + real) \<Rightarrow> (genre \<Rightarrow> pyerror + real) \<Rightarrow> catalog \<Rightarrow> ratings \<Rightarrow> vector \<times> vector
     \<Rightarrow> pyerror + (vector \<times> vector)" where
  "vectors_movies other_score our_score movies [] vs = Inr vs"
| "vectors_movies other_score our_score movies ((mid, _) # rest) vs =
     (case movies mid of
        None \<Rightarrow> Inl KeyError
      | Some m \<Rightarrow> and_then (vectors_genres other_score our_score (genres m) vs)
                   (vectors_movies other_score our_score movies rest))"

definition get_genre_weight ::
  "ratings \<Rightarrow> ratings \<Rightarrow> counts \<Rightarrow> catalog \<Rightarrow> counts \<Rightarrow> int \<Rightarrow> bool \<Rightarrow> bool \<Rightarrow> bool \<Rightarrow> bool \<Rightarrow> bool \<Rightarrow> bool
     \<Rightarrow> pyerror + real" where
  "get_genre_weight our_user_ratings other_user_ratings our_genre_frequencies movies corpus n
       cosine euclidean augmented boolean logarithmic smooth =
     and_then (get_genre_frequencies other_user_ratings movies) (\<lambda>genre_frequencies.
     and_then (vectors_movies
                 (\<lambda>genre. tf_idf genre_frequencies genre corpus n augmented boolean logarithmic smooth)
                 (\<lambda>genre. tf_idf our_genre_frequencies genre corpus n augmented boolean logarithmic smooth)
                 movies our_user_ratings ([], []))
       (\<lambda>(other_vector, our_vector).
          if cosine then cosine_similarity our_vector other_vector
          else if euclidean then euclidean_distance our_vector other_vector
          else and_then (py_div (sum_list (map snd our_vector)) (real (length our_vector))) (\<lambda>our_avg.
               and_then (py_div (sum_list (map snd other_vector)) (real (length other_vector))) (\<lambda>other_avg.
               pearson_correlation our_vector other_vector our_avg other_avg))))"

section \<open>Prediction\<close>

text \<open>
  The corpus loops at the head of \<^verbatim>\<open>get_rating\<close> (genre mode only). Their loop variable
  is named \<^verbatim>\<open>mid\<close>, like the parameter of \<^verbatim>\<open>get_rating\<close>, and a Python \<^verbatim>\<open>for\<close>
  assigns its variable in the scope of the function: the state of these loops is
  therefore the corpus together with the current value of \<^verbatim>\<open>mid\<close>.
\<close>

definition corpus_genres :: "genre list \<Rightarrow> genre set \<times> counts \<Rightarrow> genre set \<times> counts" where
  "corpus_genres gs st =
     fold (\<lambda>genre (seen, corpus).
             if genre \<notin> seen then (insert genre seen, increment genre corpus) else (seen, corpus)) gs st"

fun corpus_user :: "catalog \<Rightarrow> ratings \<Rightarrow> genre set \<times> counts \<times> mid \<Rightarrow> pyerror + (genre set \<times> counts \<times> mid)" where
  "corpus_user movies [] st = Inr st"
| "corpus_user movies ((m, _) # rest) (seen, corpus, mid) =
     (case movies m of
        None \<Rightarrow> Inl KeyError
      | Some mv \<Rightarrow>
          (case corpus_genres (genres mv) (seen, corpus) of
             (seen', corpus') \<Rightarrow> corpus_user movies rest (seen', corpus', m)))"

fun build_corpus :: "catalog \<Rightarrow> ratings list \<Rightarrow> counts \<times> mid \<Rightarrow> pyerror + (counts \<times> mid)" where
  "build_corpus movies [] st = Inr st"
| "build_corpus movies (other_user_ratings # rest) (corpus, mid) =
     and_then (corpus_user movies other_user_ratings ({}, corpus, mid))
       (\<lambda>(seen, corpus', mid'). build_corpus movies rest (corpus', mid'))"

text \<open>
  The main loop of \<^verbatim>\<open>get_rating\<close>; \<open>weight_of\<close> is the \<^verbatim>\<open>if use_genres ... elif cosine
  ... elif euclidean ... else\<close> chain of the loop body.
\<close>

fun rating_loop ::
  "(ratings \<Rightarrow> real \<Rightarrow> pyerror + real) \<Rightarrow> mid \<Rightarrow> ratings list \<Rightarrow> real \<times> real \<Rightarrow> pyerror + (real \<times> real)" where
  "rating_loop weight_of mid [] acc = Inr acc"
| "rating_loop weight_of mid (other_user_ratings # rest) (numer, denom) =
     (case map_of other_user_ratings mid of
        None \<Rightarrow> rating_loop weight_of mid rest (numer, denom)
      | Some other_rating \<Rightarrow>
          and_then (py_div (sum_list (map snd other_user_ratings)) (real (length other_user_ratings)))
            (\<lambda>other_avg.
          and_then (weight_of other_user_ratings other_avg) (\<lambda>weight.
          rating_loop weight_of mid rest
            (numer + (other_rating - other_avg) * weight, denom + \<bar>weight\<bar>))))"

text \<open>
  In genre mode the call of \<^verbatim>\<open>get_genre_weight\<close> passes ten positional arguments:
  \<^verbatim>\<open>our_avg\<close> and \<^verbatim>\<open>other_avg\<close> land on the parameters \<^verbatim>\<open>cosine\<close> and
  \<^verbatim>\<open>euclidean\<close> (a float is true when it is not zero), the caller's \<^verbatim>\<open>cosine\<close> and
  \<^verbatim>\<open>euclidean\<close> land on \<^verbatim>\<open>augmented\<close> and \<^verbatim>\<open>boolean\<close>, and \<^verbatim>\<open>logarithmic\<close> and
  \<^verbatim>\<open>smooth\<close> keep their default \<^verbatim>\<open>True\<close>.
\<close>

definition weight_of ::
  "catalog \<Rightarrow> ratings \<Rightarrow> real \<Rightarrow> bool \<Rightarrow> bool \<Rightarrow> bool \<Rightarrow> counts \<Rightarrow> int \<Rightarrow> counts \<Rightarrow> ratings \<Rightarrow> real
     \<Rightarrow> pyerror + real" where
  "weight_of movies our_user_ratings our_avg use_genres cosine euclidean corpus n our_genre_frequencies
       other_user_ratings other_avg =
     (if use_genres then
        get_genre_weight our_user_ratings other_user_ratings our_genre_frequencies movies corpus n
          (our_avg \<noteq> 0) (other_avg \<noteq> 0) cosine euclidean True True
      else if cosine then cosine_similarity our_user_ratings other_user_ratings
      else if euclidean then euclidean_distance our_user_ratings other_user_ratings
      else pearson_correlation our_user_ratings other_user_ratings our_avg other_avg)"

definition get_rating ::
  "mid \<Rightarrow> catalog \<Rightarrow> ratings \<Rightarrow> ratings list \<Rightarrow> real \<Rightarrow> bool \<Rightarrow> bool \<Rightarrow> bool \<Rightarrow> pyerror + real" where
  "get_rating mid movies our_user_ratings all_other_user_ratings our_avg use_genres cosine euclidean =
     and_then
       (if use_genres then
          and_then (build_corpus movies all_other_user_ratings ([], mid)) (\<lambda>(corpus, mid).
          and_then (get_genre_frequencies our_user_ratings movies) (\<lambda>our_genre_frequencies.
          Inr (mid, corpus, int (length all_other_user_ratings), our_genre_frequencies)))
        else Inr (mid, [], 0, []))
       (\<lambda>(mid, corpus, n, our_genre_frequencies).
          and_then (rating_loop
                      (weight_of movies our_user_ratings our_avg use_genres cosine euclidean
                         corpus n our_genre_frequencies)
                      mid all_other_user_ratings (0, 0))
            (\<lambda>(numer, denom). and_then (py_div numer denom) (\<lambda>q. Inr (our_avg + q))))"

section \<open>Cross-validation\<close>

text \<open>
  The ratings file is the list of its rows (user, item, rating), already parsed; the calls of
  \<^verbatim>\<open>random()\<close> are the values \<open>draws 0\<close>, \<open>draws 1\<close>, ... taken in order. The values
  of \<^verbatim>\<open>mid_to_uids\<close> are Python sets: they are lists without repetition here, in the order
  of first insertion (Python leaves the iteration order of a set open).
\<close>

type_synonym row = "uid \<times> mid \<times> real"
type_synonym user_table = "(uid \<times> ratings) list"
type_synonym item_index = "(mid \<times> uid list) list"

definition add_rating :: "uid \<Rightarrow> mid \<Rightarrow> real \<Rightarrow> user_table \<Rightarrow> user_table" where
  "add_rating uid mid rating uid_to_ratings =
     (case map_of uid_to_ratings uid of
        Some rs \<Rightarrow> AList.update uid (AList.update mid rating rs) uid_to_ratings
      | None \<Rightarrow> AList.update uid [(mid, rating)] uid_to_ratings)"

definition add_uid :: "mid \<Rightarrow> uid \<Rightarrow> item_index \<Rightarrow> item_index" where
  "add_uid mid uid mid_to_uids =
     (case map_of mid_to_uids mid of
        Some us \<Rightarrow> AList.update mid (if uid \<in> set us then us else us @ [uid]) mid_to_uids
      | None \<Rightarrow> AList.update mid [uid] mid_to_uids)"

definition load_ratings :: "row list \<Rightarrow> user_table \<times> item_index" where
  "load_ratings rows =
     fold (\<lambda>(uid, mid, rating) (uid_to_ratings, mid_to_uids).
             (add_rating uid mid rating uid_to_ratings, add_uid mid uid mid_to_uids)) rows ([], [])"

definition lookup :: "('k \<times> 'v) list \<Rightarrow> 'k \<Rightarrow> pyerror + 'v" where
  \<comment> \<open>\<^verbatim>\<open>d[k]\<close>\<close>
  "lookup d k = (case map_of d k of None \<Rightarrow> Inl KeyError | Some v \<Rightarrow> Inr v)"

fun lookup_each :: "('k \<times> 'v) list \<Rightarrow> 'k list \<Rightarrow> pyerror + 'v list" where
  "lookup_each d [] = Inr []"
| "lookup_each d (k # ks) =
     and_then (lookup d k) (\<lambda>v. and_then (lookup_each d ks) (\<lambda>vs. Inr (v # vs)))"

definition all_other_user_ratings :: "user_table \<Rightarrow> item_index \<Rightarrow> mid \<Rightarrow> pyerror + ratings list" where
  \<comment> \<open>\<^verbatim>\<open>[uid_to_ratings[uid] for uid in mid_to_uids[test_mid]]\<close>\<close>
  "all_other_user_ratings uid_to_ratings mid_to_uids test_mid =
     and_then (lookup mid_to_uids test_mid) (lookup_each uid_to_ratings)"

record totals =
  cosine_dif :: real
  pearson_dif :: real
  euclidean_dif :: real
  genre_dif :: real
  cosine_length :: int
  pearson_length :: int
  euclidean_length :: int
  genre_length :: int

definition score :: "real \<Rightarrow> pyerror + real \<Rightarrow> real \<times> int \<Rightarrow> pyerror + (real \<times> int)" where
  \<comment> \<open>one \<^verbatim>\<open>try ... except ZeroDivisionError\<close> block, on one mode's sum and count\<close>
  "score real_rating prediction acc =
     (case prediction of
        Inr p \<Rightarrow> Inr (fst acc + (real_rating - p)\<^sup>2, snd acc)
      | Inl ZeroDivisionError \<Rightarrow> Inr (fst acc, snd acc - 1)
      | Inl e \<Rightarrow> Inl e)"

definition leave_one_out ::
  "catalog \<Rightarrow> user_table \<Rightarrow> item_index \<Rightarrow> ratings \<Rightarrow> mid \<Rightarrow> totals \<Rightarrow> pyerror + totals" where
  "leave_one_out movies uid_to_ratings mid_to_uids current_user_ratings test_mid t =
     and_then (all_other_user_ratings uid_to_ratings mid_to_uids test_mid) (\<lambda>others.
     and_then (lookup current_user_ratings test_mid) (\<lambda>real_rating.
     let test_ratings = filter (\<lambda>(mid, rating). mid \<noteq> test_mid) current_user_ratings;
         rating_sum = sum_list (map snd test_ratings)
     in and_then (py_div rating_sum (real (length test_ratings))) (\<lambda>our_avg.
        and_then (score real_rating
                    (get_rating test_mid movies test_ratings others our_avg False False False)
                    (pearson_dif t, pearson_length t)) (\<lambda>(pd, pl).
        and_then (score real_rating
                    (get_rating test_mid movies test_ratings others our_avg False True False)
                    (cosine_dif t, cosine_length t)) (\<lambda>(cd, cl).
        and_then (score real_rating
                    (get_rating test_mid movies test_ratings others our_avg False False True)
                    (euclidean_dif t, euclidean_length t)) (\<lambda>(ed, el).
        and_then (score real_rating
                    (get_rating test_mid movies test_ratings others our_avg True False False)
                    (genre_dif t, genre_length t)) (\<lambda>(gd, gl).
        Inr \<lparr>cosine_dif = cd, pearson_dif = pd, euclidean_dif = ed, genre_dif = gd,
             cosine_length = cl, pearson_length = pl, euclidean_length = el, genre_length = gl\<rparr>)))))))"

fun item_loop ::
  "catalog \<Rightarrow> user_table \<Rightarrow> item_index \<Rightarrow> ratings \<Rightarrow> mid list \<Rightarrow> totals \<Rightarrow> pyerror + totals" where
  "item_loop movies uid_to_ratings mid_to_uids current_user_ratings [] t = Inr t"
| "item_loop movies uid_to_ratings mid_to_uids current_user_ratings (test_mid # rest) t =
     and_then (leave_one_out movies uid_to_ratings mid_to_uids current_user_ratings test_mid t)
       (item_loop movies uid_to_ratings mid_to_uids current_user_ratings rest)"

definition count_user :: "ratings \<Rightarrow> totals \<Rightarrow> totals" where
  "count_user current_user_ratings t =
     t\<lparr>cosine_length := cosine_length t + int (length current_user_ratings),
       pearson_length := pearson_length t + int (length current_user_ratings),
       euclidean_length := euclidean_length t + int (length current_user_ratings),
       genre_length := genre_length t + int (length current_user_ratings)\<rparr>"

definition process_user ::
  "real \<Rightarrow> catalog \<Rightarrow> user_table \<Rightarrow> item_index \<Rightarrow> ratings \<Rightarrow> (nat \<Rightarrow> real) \<Rightarrow> nat \<times> totals
     \<Rightarrow> pyerror + (nat \<times> totals)" where
  \<comment> \<open>one round of the loop over the users; the state is the number of draws taken and the totals\<close>
  "process_user ratio movies uid_to_ratings mid_to_uids current_user_ratings draws st =
     (case st of (i, t) \<Rightarrow>
        if length current_user_ratings \<le> 1 then Inr (i, t)
        else if ratio \<le> draws i then Inr (Suc i, t)
        else and_then (item_loop movies uid_to_ratings mid_to_uids current_user_ratings
                         (map fst current_user_ratings) (count_user current_user_ratings t))
               (\<lambda>t'. Inr (Suc i, t')))"

fun user_loop ::
  "real \<Rightarrow> catalog \<Rightarrow> user_table \<Rightarrow> item_index \<Rightarrow> user_table \<Rightarrow> (nat \<Rightarrow> real) \<Rightarrow> nat \<times> totals
     \<Rightarrow> pyerror + (nat \<times> totals)" where
  "user_loop ratio movies uid_to_ratings mid_to_uids [] draws st = Inr st"
| "user_loop ratio movies uid_to_ratings mid_to_uids ((uid, current_user_ratings) # rest) draws st =
     and_then (process_user ratio movies uid_to_ratings mid_to_uids current_user_ratings draws st)
       (user_loop ratio movies uid_to_ratings mid_to_uids rest draws)"

definition rmse :: "real \<Rightarrow> int \<Rightarrow> pyerror + real" where
  \<comment> \<open>\<^verbatim>\<open>sqrt(dif / length)\<close>\<close>
  "rmse dif len = and_then (py_div dif (real_of_int len)) py_sqrt"

definition calculate_rmse_for_each_distance_measure ::
  "real \<Rightarrow> catalog \<Rightarrow> row list \<Rightarrow> (nat \<Rightarrow> real) \<Rightarrow> pyerror + (real \<times> real \<times> real \<times> real)" where
  "calculate_rmse_for_each_distance_measure percent movies rows draws =
     (let ratio = percent / 100 in
      case load_ratings rows of (uid_to_ratings, mid_to_uids) \<Rightarrow>
        and_then (user_loop ratio movies uid_to_ratings mid_to_uids uid_to_ratings draws
                    (0, \<lparr>cosine_dif = 0, pearson_dif = 0, euclidean_dif = 0, genre_dif = 0,
                         cosine_length = 0, pearson_length = 0, euclidean_length = 0,
                         genre_length = 0\<rparr>)) (\<lambda>(i, t).
        and_then (rmse (cosine_dif t) (cosine_length t)) (\<lambda>c.
        and_then (rmse (pearson_dif t) (pearson_length t)) (\<lambda>p.
        and_then (rmse (euclidean_dif t) (euclidean_length t)) (\<lambda>e.
        and_then (rmse (genre_dif t) (genre_length t)) (\<lambda>g.
        Inr (c, p, e, g)))))))"

section \<open>Notions used in the statements\<close>

text \<open>
  The pairs (user, item) that the two tables built by \<^verbatim>\<open>calculate_rmse_for_each_distance_measure\<close>
  record: a user's vector has the item as a key, and the item's set of users has the user.
\<close>

definition rated_pairs :: "user_table \<Rightarrow> (uid \<times> mid) set" where
  "rated_pairs t = {(u, m). \<exists>rs. map_of t u = Some rs \<and> map_of rs m \<noteq> None}"

definition indexed_pairs :: "item_index \<Rightarrow> (uid \<times> mid) set" where
  "indexed_pairs idx = {(u, m). \<exists>us. map_of idx m = Some us \<and> u \<in> set us}"

text \<open>
  The prediction in the words of the specification (its section 4.3), for comparison with
  \<open>get_rating\<close>: over the neighbours whose vector contains the target item, the deviation
  of a neighbour is its rating of the target item minus its average over its full vector, and
  the result is \<open>primary_avg + \<Sum> deviation * weight / \<Sum> \<bar>weight\<bar>\<close>, a division error
  when the accumulated absolute weight is zero.
\<close>

definition neighbours_of :: "mid \<Rightarrow> ratings list \<Rightarrow> ratings list" where
  "neighbours_of mid others = filter (\<lambda>neighbour. map_of neighbour mid \<noteq> None) others"

definition average :: "ratings \<Rightarrow> real" where
  "average rs = sum_list (map snd rs) / real (length rs)"

definition deviation :: "mid \<Rightarrow> ratings \<Rightarrow> real" where
  "deviation mid neighbour = the (map_of neighbour mid) - average neighbour"

definition spec_prediction :: "(ratings \<Rightarrow> real) \<Rightarrow> mid \<Rightarrow> real \<Rightarrow> ratings list \<Rightarrow> pyerror + real" where
  "spec_prediction weight mid primary_avg others =
     (let num = sum_list (map (\<lambda>neighbour. deviation mid neighbour * weight neighbour)
                        (neighbours_of mid others));
          den = sum_list (map (\<lambda>neighbour. \<bar>weight neighbour\<bar>) (neighbours_of mid others))
      in if den = 0 then Inl ZeroDivisionError else Inr (primary_avg + num / den))"

section \<open>Facts about the primitives\<close>

lemma py_round_of_int: "py_round (of_int n) = n"
  by (simp add: py_round_def)

lemma py_round_tie: "py_round (of_int k + 1 / 2) = (if even k then k else k + 1)"
proof -
  have "\<lfloor>of_int k + (1 / 2 :: real)\<rfloor> = k"
    by linarith
  then show ?thesis
    by (simp add: py_round_def Let_def)
qed

lemma fold_plus_sum_list:
  "fold (\<lambda>x (acc :: real). acc + f x) xs a = a + sum_list (map f xs)"
  by (induction xs arbitrary: a) simp_all

lemma sum_list_alist:
  "distinct (map fst xs) \<Longrightarrow>
   sum_list (map (\<lambda>(k, v). g k v) xs) = (\<Sum>k \<in> dom (map_of xs). (g k (the (map_of xs k)) :: real))"
proof (induction xs)
  case Nil
  then show ?case by simp
next
  case (Cons p xs)
  obtain k v where p: "p = (k, v)" by (cases p)
  from Cons.prems p have notin: "k \<notin> dom (map_of xs)" and dist: "distinct (map fst xs)"
    by (auto simp: dom_map_of_conv_image_fst)
  have fin: "finite (dom (map_of xs))"
    by (rule finite_dom_map_of)
  have same: "(\<Sum>k' \<in> dom (map_of xs). g k' (the (map_of (p # xs) k')))
            = (\<Sum>k' \<in> dom (map_of xs). g k' (the (map_of xs k')))"
    using notin by (intro sum.cong) (auto simp: p)
  have d: "dom (map_of (p # xs)) = insert k (dom (map_of xs))"
    by (auto simp: p)
  have hd: "g k (the (map_of (p # xs) k)) = g k v"
    by (simp add: p)
  have "(\<Sum>k' \<in> dom (map_of (p # xs)). g k' (the (map_of (p # xs) k')))
      = g k (the (map_of (p # xs) k)) + (\<Sum>k' \<in> dom (map_of xs). g k' (the (map_of (p # xs) k')))"
    unfolding d by (rule sum.insert [OF fin notin])
  also have "\<dots> = g k v + (\<Sum>k' \<in> dom (map_of xs). g k' (the (map_of xs k')))"
    unfolding hd same ..
  also have "\<dots> = g k v + sum_list (map (\<lambda>(k, v). g k v) xs)"
    unfolding Cons.IH [OF dist] ..
  also have "\<dots> = sum_list (map (\<lambda>(k, v). g k v) (p # xs))"
    by (simp add: p)
  finally show ?case ..
qed

lemma sum_list_squares_nonneg: "0 \<le> sum_list (map (\<lambda>(_, rating). (rating - c)\<^sup>2) xs)" for c :: real
  by (rule sum_list_nonneg) auto

lemma sum_list_norm_nonneg: "0 \<le> sum_list (map (\<lambda>(_, rating :: real). rating\<^sup>2) xs)"
  by (rule sum_list_nonneg) auto

lemma fold_shared:
  "fold (\<lambda>(k, v) (acc :: real). case map_of B k of Some b \<Rightarrow> acc + h v b | None \<Rightarrow> acc) A a
   = a + sum_list (map (\<lambda>(k, v). case map_of B k of Some b \<Rightarrow> h v b | None \<Rightarrow> 0) A)"
  by (induction A arbitrary: a) (auto split: option.splits)

lemma shared_sum:
  assumes "distinct (map fst A)"
  shows "sum_list (map (\<lambda>(k, v). case map_of B k of Some b \<Rightarrow> h v b | None \<Rightarrow> 0) A)
       = (\<Sum>k \<in> dom (map_of A) \<inter> dom (map_of B). (h (the (map_of A k)) (the (map_of B k)) :: real))"
proof -
  have "sum_list (map (\<lambda>(k, v). case map_of B k of Some b \<Rightarrow> h v b | None \<Rightarrow> 0) A)
      = (\<Sum>k \<in> dom (map_of A). case map_of B k of Some b \<Rightarrow> h (the (map_of A k)) b | None \<Rightarrow> 0)"
    by (rule sum_list_alist [OF assms])
  also have "\<dots> = (\<Sum>k \<in> dom (map_of A). if k \<in> dom (map_of B)
                        then h (the (map_of A k)) (the (map_of B k)) else 0)"
    by (intro sum.cong) (auto split: option.splits)
  also have "\<dots> = (\<Sum>k \<in> dom (map_of A) \<inter> dom (map_of B). h (the (map_of A k)) (the (map_of B k)))"
    by (rule sum.inter_restrict [symmetric]) (rule finite_dom_map_of)
  finally show ?thesis .
qed

section \<open>Pearson correlation\<close>

text \<open>
  Claim C4. For rating vectors \<open>A\<close> and \<open>B\<close> (dicts, so their keys are distinct) and any two
  means, \<^verbatim>\<open>pearson_correlation\<close> always returns a value and never raises: the sum of
  \<open>(A[k] - meanA) * (B[k] - meanB)\<close> over the keys the two vectors share, divided by the square
  root of the product of the two sums of squared deviations, each taken over all the keys of
  its own vector; and 0 when that product is 0.
\<close>

theorem pearson_correlation_formula:
  assumes "distinct (map fst A)" and "distinct (map fst B)"
  shows "pearson_correlation A B meanA meanB =
     Inr (let num = (\<Sum>k \<in> dom (map_of A) \<inter> dom (map_of B).
                       (the (map_of A k) - meanA) * (the (map_of B k) - meanB));
              den = (\<Sum>k \<in> dom (map_of A). (the (map_of A k) - meanA)\<^sup>2)
                  * (\<Sum>k \<in> dom (map_of B). (the (map_of B k) - meanB)\<^sup>2)
          in if den = 0 then 0 else num / sqrt den)"
proof -
  let ?num = "\<Sum>k \<in> dom (map_of A) \<inter> dom (map_of B).
                 (the (map_of A k) - meanA) * (the (map_of B k) - meanB)"
  let ?dA = "\<Sum>k \<in> dom (map_of A). (the (map_of A k) - meanA)\<^sup>2"
  let ?dB = "\<Sum>k \<in> dom (map_of B). (the (map_of B k) - meanB)\<^sup>2"
  have num: "fold (\<lambda>(mid, our_rating) numer.
                case map_of B mid of
                  Some other_rating \<Rightarrow> numer + (our_rating - meanA) * (other_rating - meanB)
                | None \<Rightarrow> numer) A 0 = ?num"
    using fold_shared [where B = B and h = "\<lambda>v b. (v - meanA) * (b - meanB)" and A = A and a = 0]
      shared_sum [OF assms(1), where B = B and h = "\<lambda>v b. (v - meanA) * (b - meanB)"] by simp
  have dA: "sum_list (map (\<lambda>(_, rating). (rating - meanA)\<^sup>2) A) = ?dA"
    using sum_list_alist [OF assms(1), where g = "\<lambda>k v. (v - meanA)\<^sup>2"] by simp
  have dB: "sum_list (map (\<lambda>(_, rating). (rating - meanB)\<^sup>2) B) = ?dB"
    using sum_list_alist [OF assms(2), where g = "\<lambda>k v. (v - meanB)\<^sup>2"] by simp
  have nonneg: "0 \<le> ?dA * ?dB"
    by (intro mult_nonneg_nonneg sum_nonneg) simp_all
  show ?thesis
    unfolding pearson_correlation_def num dA dB Let_def
    using nonneg by (simp add: and_then_def py_sqrt_def py_div_def)
qed

theorem pearson_correlation_formula_witness:
  "distinct (map fst [(''a'', 1 :: real), (''b'', 3)]) \<and> distinct (map fst [(''a'', 2 :: real), (''b'', 4)])
   \<and> pearson_correlation [(''a'', 1), (''b'', 3)] [(''a'', 2), (''b'', 4)] 2 3 = Inr 1"
  using pearson_correlation_formula [of "[(''a'', 1), (''b'', 3)]" "[(''a'', 2), (''b'', 4)]" 2 3]
  by (simp add: dom_map_of_conv_image_fst)

section \<open>Rounding to half stars\<close>

text \<open>
  Claim C9. For every score, \<^verbatim>\<open>round_stars\<close> returns a multiple of one half, and rounding
  the rounded score again gives the same value.
\<close>

theorem round_stars_half_step_idempotent:
  "(\<exists>n :: int. round_stars x = of_int n / 2) \<and> round_stars (round_stars x) = round_stars x"
proof
  show "\<exists>n :: int. round_stars x = of_int n / 2"
    unfolding round_stars_def by blast
  have "round_stars x * 2 = of_int (py_round (x * 2))"
    by (simp add: round_stars_def)
  then show "round_stars (round_stars x) = round_stars x"
    by (simp add: round_stars_def py_round_of_int)
qed

text \<open>
  Claim C10. A score exactly midway between two consecutive multiples of one half, that is
  \<open>k / 2 + 1 / 4\<close> for an integer \<open>k\<close>, is rounded to the neighbour that is an even number of
  half stars: down to \<open>k / 2\<close> when \<open>k\<close> is even, up to \<open>(k + 1) / 2\<close> when \<open>k\<close> is odd.
\<close>

theorem round_stars_ties_to_even:
  "round_stars (of_int k / 2 + 1 / 4) = (if even k then of_int k / 2 else (of_int k + 1) / 2)"
proof -
  have "(of_int k / 2 + 1 / 4) * 2 = (of_int k + 1 / 2 :: real)"
    by (simp add: field_simps)
  then show ?thesis
    by (simp add: round_stars_def py_round_tie)
qed

theorem round_stars_ties_to_even_witness:
  "round_stars (1 / 4) = 0 \<and> round_stars (3 / 4) = 1"
  using round_stars_ties_to_even [of 0] round_stars_ties_to_even [of 1] by simp

section \<open>Vectors without a shared key\<close>

lemma fold_no_shared:
  "fst ` set A \<inter> fst ` set B = {} \<Longrightarrow>
   fold (\<lambda>(k, v) (acc :: real). case map_of B k of Some b \<Rightarrow> acc + h v b | None \<Rightarrow> acc) A a = a"
proof (induction A arbitrary: a)
  case Nil
  then show ?case by simp
next
  case (Cons p A)
  obtain k v where p: "p = (k, v)" by (cases p)
  from Cons.prems p have "k \<notin> fst ` set B" and rest: "fst ` set A \<inter> fst ` set B = {}"
    by auto
  then have "map_of B k = None"
    by (simp add: map_of_eq_None_iff)
  with Cons.IH [OF rest] show ?case
    by (simp add: p)
qed

lemma filter_no_shared:
  "fst ` set A \<inter> fst ` set B = {} \<Longrightarrow> filter (\<lambda>(key, our_score). map_of B key \<noteq> None) A = []"
  by (force simp: filter_empty_conv map_of_eq_None_iff)

lemma norm_zero_iff:
  "sum_list (map (\<lambda>(_, rating :: real). rating\<^sup>2) xs) = 0 \<longleftrightarrow> (\<forall>r \<in> snd ` set xs. r = 0)"
proof -
  have "sum_list (map (\<lambda>(_, rating :: real). rating\<^sup>2) xs) = 0
        \<longleftrightarrow> (\<forall>x \<in> set (map (\<lambda>(_, rating :: real). rating\<^sup>2) xs). x = 0)"
    by (rule sum_list_nonneg_eq_0_iff) auto
  also have "\<dots> \<longleftrightarrow> (\<forall>r \<in> snd ` set xs. r = 0)"
    by force
  finally show ?thesis .
qed

text \<open>
  Claim C5, as the specification states it, says that for two vectors with no key in common
  the Pearson correlation and the cosine similarity both fail with a division by zero. They do
  not: on the vectors below both return 0.
\<close>

theorem no_shared_keys_counterexample:
  "pearson_correlation [(''a'', 1), (''b'', 3)] [(''c'', 2), (''d'', 4)] 2 3 = Inr 0
   \<and> cosine_similarity [(''a'', 3)] [(''b'', 4)] = Inr 0"
  by (simp add: pearson_correlation_def cosine_similarity_def and_then_def py_sqrt_def py_div_def)

text \<open>
  Claim C5, amended. For two vectors with no key in common: \<^verbatim>\<open>pearson_correlation\<close>
  returns 0 and never fails (an empty numerator, and the guard on a zero denominator);
  \<^verbatim>\<open>euclidean_distance\<close> returns 0; \<^verbatim>\<open>cosine_similarity\<close> returns 0 too, and fails
  with a division by zero exactly when one of the two vectors has only zero entries (this
  includes an empty vector), because its norm is then 0.
\<close>

theorem no_shared_keys:
  assumes "fst ` set A \<inter> fst ` set B = {}"
  shows "pearson_correlation A B meanA meanB = Inr 0
       \<and> euclidean_distance A B = Inr 0
       \<and> cosine_similarity A B =
           (if (\<forall>r \<in> snd ` set A. r = 0) \<or> (\<forall>r \<in> snd ` set B. r = 0)
            then Inl ZeroDivisionError else Inr 0)"
proof (intro conjI)
  have "0 \<le> sum_list (map (\<lambda>(_, rating). (rating - meanA)\<^sup>2) A)
           * sum_list (map (\<lambda>(_, rating). (rating - meanB)\<^sup>2) B)"
    by (intro mult_nonneg_nonneg sum_list_squares_nonneg)
  then show "pearson_correlation A B meanA meanB = Inr 0"
    unfolding pearson_correlation_def Let_def fold_no_shared [OF assms]
    by (simp add: and_then_def py_sqrt_def py_div_def)
  show "euclidean_distance A B = Inr 0"
    unfolding euclidean_distance_def filter_no_shared [OF assms]
    by (simp add: py_sqrt_def)
  show "cosine_similarity A B =
           (if (\<forall>r \<in> snd ` set A. r = 0) \<or> (\<forall>r \<in> snd ` set B. r = 0)
            then Inl ZeroDivisionError else Inr 0)"
    unfolding cosine_similarity_def Let_def fold_no_shared [OF assms] norm_zero_iff [symmetric]
    using sum_list_norm_nonneg [of A] sum_list_norm_nonneg [of B]
    by (simp add: and_then_def py_sqrt_def py_div_def)
qed

theorem no_shared_keys_witness:
  "fst ` set [(''a'', 3 :: real)] \<inter> fst ` set [(''b'', 4 :: real)] = {}
   \<and> pearson_correlation [(''a'', 3)] [(''b'', 4)] 3 4 = Inr 0
   \<and> euclidean_distance [(''a'', 3)] [(''b'', 4)] = Inr 0
   \<and> cosine_similarity [(''a'', 3)] [(''b'', 4)] = Inr 0"
  using no_shared_keys [of "[(''a'', 3)]" "[(''b'', 4)]" 3 4] by simp

section \<open>Inverse document frequency\<close>

text \<open>
  Claim C7, as the specification states it, orders the smoothed inverse document frequency
  against the document frequency for any two genres, and gives 0 to a genre absent from the
  corpus. A genre absent from the corpus has document frequency 0, the smallest there is, and
  gets 0, which is below the value \<open>ln 2\<close> of a genre that one neighbour out of one has.
\<close>

theorem idf_absent_genre_counterexample:
  "get_count [(''Comedy'', 1)] ''Drama'' \<le> get_count [(''Comedy'', 1)] ''Comedy''
   \<and> inverse_document_frequency ''Drama'' [(''Comedy'', 1)] 1 True = Inr 0
   \<and> inverse_document_frequency ''Comedy'' [(''Comedy'', 1)] 1 True = Inr (ln 2)
   \<and> (0 :: real) < ln 2"
  by (simp add: get_count_def inverse_document_frequency_def and_then_def py_div_def py_log_def)

text \<open>
  Claim C7, amended. For a population size \<open>n \<ge> 0\<close> and two genres that are both in the
  corpus, with positive counts \<open>d1 \<le> d2\<close>, the smoothed inverse document frequency is
  \<open>ln ((1 + n) / d)\<close> and the genre with the larger count has the smaller or equal value;
  a genre absent from the corpus gets 0 and no error, with or without smoothing.
\<close>

theorem idf_smooth_monotone:
  assumes "map_of corpus g1 = Some d1" and "map_of corpus g2 = Some d2"
    and "0 < d1" and "d1 \<le> d2" and "0 \<le> n"
  shows "inverse_document_frequency g1 corpus n True = Inr (ln (real_of_int (1 + n) / real_of_int d1))
       \<and> inverse_document_frequency g2 corpus n True = Inr (ln (real_of_int (1 + n) / real_of_int d2))
       \<and> ln (real_of_int (1 + n) / real_of_int d2) \<le> ln (real_of_int (1 + n) / real_of_int d1)
       \<and> (map_of corpus g = None \<longrightarrow> inverse_document_frequency g corpus n smooth = Inr 0)"
proof -
  let ?q1 = "real_of_int (1 + n) / real_of_int d1" and ?q2 = "real_of_int (1 + n) / real_of_int d2"
  from assms have d: "real_of_int d1 \<noteq> 0" "real_of_int d2 \<noteq> 0"
    by simp_all
  from assms have pos: "0 < ?q1" "0 < ?q2"
    by simp_all
  from assms have "?q2 \<le> ?q1"
    by (intro divide_left_mono) (simp_all add: mult_pos_pos)
  with pos have le: "ln ?q2 \<le> ln ?q1"
    by simp
  from pos have l1: "py_log ?q1 = Inr (ln ?q1)" and l2: "py_log ?q2 = Inr (ln ?q2)"
    unfolding py_log_def by simp_all
  have i1: "inverse_document_frequency g1 corpus n True = Inr (ln ?q1)"
    unfolding inverse_document_frequency_def assms(1) using d l1
    by (simp only: option.case if_True py_div_def and_then_def if_False sum.case)
  have i2: "inverse_document_frequency g2 corpus n True = Inr (ln ?q2)"
    unfolding inverse_document_frequency_def assms(2) using d l2
    by (simp only: option.case if_True py_div_def and_then_def if_False sum.case)
  have "map_of corpus g = None \<longrightarrow> inverse_document_frequency g corpus n smooth = Inr 0"
    by (simp add: inverse_document_frequency_def)
  with i1 i2 le show ?thesis
    by (intro conjI)
qed
theorem idf_smooth_monotone_witness:
  "map_of [(''Comedy'', 1), (''Drama'', 2 :: int)] ''Comedy'' = Some 1
   \<and> map_of [(''Comedy'', 1), (''Drama'', 2 :: int)] ''Drama'' = Some 2
   \<and> (0 :: int) < 1 \<and> (1 :: int) \<le> 2 \<and> (0 :: int) \<le> 2
   \<and> map_of [(''Comedy'', 1), (''Drama'', 2 :: int)] ''Horror'' = None
   \<and> inverse_document_frequency ''Comedy'' [(''Comedy'', 1), (''Drama'', 2)] 2 True = Inr (ln 3)
   \<and> inverse_document_frequency ''Drama'' [(''Comedy'', 1), (''Drama'', 2)] 2 True = Inr (ln (3 / 2))
   \<and> ln (3 / 2 :: real) \<le> ln 3
   \<and> inverse_document_frequency ''Horror'' [(''Comedy'', 1), (''Drama'', 2)] 2 True = Inr 0"
  using idf_smooth_monotone [of "[(''Comedy'', 1), (''Drama'', 2)]" "''Comedy''" 1 "''Drama''" 2 2 "''Horror''" True]
  by simp

section \<open>Users skipped by the cross-validation\<close>

text \<open>
  Claim C8. A user whose rating vector has one entry or none is skipped at the head of the
  loop over the users, whatever the ratio and the draws are: the round leaves the totals (all
  four sums and all four counts) as they were and takes no draw. Hence the whole loop over the
  users gives the same result as the loop over the users with at least two ratings.
\<close>

theorem short_vectors_skipped:
  "(length current_user_ratings \<le> 1 \<longrightarrow>
      process_user ratio movies uid_to_ratings mid_to_uids current_user_ratings draws (i, t) = Inr (i, t))
   \<and> user_loop ratio movies uid_to_ratings mid_to_uids users draws st
     = user_loop ratio movies uid_to_ratings mid_to_uids
         (filter (\<lambda>(uid, user_ratings). 1 < length user_ratings) users) draws st"
proof
  show "length current_user_ratings \<le> 1 \<longrightarrow>
      process_user ratio movies uid_to_ratings mid_to_uids current_user_ratings draws (i, t) = Inr (i, t)"
    by (simp add: process_user_def)
  show "user_loop ratio movies uid_to_ratings mid_to_uids users draws st
     = user_loop ratio movies uid_to_ratings mid_to_uids
         (filter (\<lambda>(uid, user_ratings). 1 < length user_ratings) users) draws st"
  proof (induction users arbitrary: st)
    case Nil
    then show ?case by simp
  next
    case (Cons p users)
    obtain uid rs where p: "p = (uid, rs)" by (cases p)
    show ?case
    proof (cases "1 < length rs")
      case True
      have "and_then (process_user ratio movies uid_to_ratings mid_to_uids rs draws st)
              (user_loop ratio movies uid_to_ratings mid_to_uids users draws)
          = and_then (process_user ratio movies uid_to_ratings mid_to_uids rs draws st)
              (user_loop ratio movies uid_to_ratings mid_to_uids
                 (filter (\<lambda>(uid, user_ratings). 1 < length user_ratings) users) draws)"
        using Cons.IH by (simp add: and_then_def split: sum.splits)
      with True show ?thesis by (simp add: p)
    next
      case False
      then have "process_user ratio movies uid_to_ratings mid_to_uids rs draws st = Inr st"
        by (cases st) (simp add: process_user_def)
      with False Cons.IH [of st] show ?thesis
        by (simp add: p and_then_def)
    qed
  qed
qed

theorem short_vectors_skipped_witness:
  "length [(''m1'', 5 :: real)] \<le> 1
   \<and> process_user (1 / 2) (\<lambda>_. None) [(''u1'', [(''m1'', 5)])] [(''m1'', [''u1''])] [(''m1'', 5)] (\<lambda>_. 0)
         (0, \<lparr>cosine_dif = 0, pearson_dif = 0, euclidean_dif = 0, genre_dif = 0,
              cosine_length = 0, pearson_length = 0, euclidean_length = 0, genre_length = 0\<rparr>)
       = Inr (0, \<lparr>cosine_dif = 0, pearson_dif = 0, euclidean_dif = 0, genre_dif = 0,
                  cosine_length = 0, pearson_length = 0, euclidean_length = 0, genre_length = 0\<rparr>)"
  using short_vectors_skipped [of "[(''m1'', 5)]" "1 / 2" "\<lambda>_. None" "[(''u1'', [(''m1'', 5)])]"
      "[(''m1'', [''u1''])]" "\<lambda>_. 0" 0
      "\<lparr>cosine_dif = 0, pearson_dif = 0, euclidean_dif = 0, genre_dif = 0,
        cosine_length = 0, pearson_length = 0, euclidean_length = 0, genre_length = 0\<rparr>"]
  by simp

section \<open>Evaluation on concrete inputs\<close>

lemmas model_defs = and_then_def py_div_def py_sqrt_def py_log_def
  pearson_correlation_def cosine_similarity_def euclidean_distance_def
  increment_def get_count_def get_genre_frequencies_def term_frequency_def
  inverse_document_frequency_def tf_idf_def get_genre_weight_def corpus_genres_def
  weight_of_def get_rating_def lookup_def all_other_user_ratings_def score_def
  leave_one_out_def count_user_def process_user_def rmse_def

lemma sqrt_25: "sqrt 25 = 5"
  using real_sqrt_abs [of 5] by simp

section \<open>The neighbour population of the cross-validation\<close>

lemma rated_pairs_add_rating:
  "rated_pairs (add_rating uid mid rating t) = insert (uid, mid) (rated_pairs t)"
  unfolding rated_pairs_def add_rating_def
  by (auto simp: update_conv' split: option.splits if_splits)

lemma indexed_pairs_add_uid:
  "indexed_pairs (add_uid mid uid idx) = insert (uid, mid) (indexed_pairs idx)"
  unfolding indexed_pairs_def add_uid_def
  by (auto simp: update_conv' split: option.splits if_splits)

lemma fold_rows_agree:
  "rated_pairs t0 = indexed_pairs idx0 \<Longrightarrow>
   fold (\<lambda>(uid, mid, rating) (uid_to_ratings, mid_to_uids).
             (add_rating uid mid rating uid_to_ratings, add_uid mid uid mid_to_uids)) rows (t0, idx0) = (t, idx)
   \<Longrightarrow> rated_pairs t = indexed_pairs idx"
proof (induction rows arbitrary: t0 idx0)
  case Nil
  then show ?case by simp
next
  case (Cons row rows)
  obtain uid mid rating where row: "row = (uid, mid, rating)" by (cases row)
  have "rated_pairs (add_rating uid mid rating t0) = indexed_pairs (add_uid mid uid idx0)"
    by (simp add: rated_pairs_add_rating indexed_pairs_add_uid Cons.prems(1))
  from Cons.IH [OF this] Cons.prems(2) show ?case
    by (simp add: row)
qed

lemma load_ratings_agree: "load_ratings rows = (t, idx) \<Longrightarrow> rated_pairs t = indexed_pairs idx"
  unfolding load_ratings_def
  by (rule fold_rows_agree [of "[]" "[]"]) (simp_all add: rated_pairs_def indexed_pairs_def)

lemma lookup_each_defined:
  "\<forall>k \<in> set ks. map_of d k \<noteq> None \<Longrightarrow> lookup_each d ks = Inr (map (\<lambda>k. the (map_of d k)) ks)"
  by (induction ks) (auto simp: lookup_def and_then_def)

text \<open>
  Claim C1 says that the population handed to \<^verbatim>\<open>get_rating\<close> for a held-out item is made of
  the vectors of the other users who rated the item, and never has the target user's own
  vector. The code takes every user of \<^verbatim>\<open>mid_to_uids[test_mid]\<close>, and the target user is one
  of them: for every ratings file, every user of the table and every item of that user's vector,
  the population is the full vectors of all the users who rated the item, and the target
  user's own vector (which still holds the held-out rating) is among them.
\<close>

theorem own_vector_in_population:
  assumes "load_ratings rows = (uid_to_ratings, mid_to_uids)"
    and "map_of uid_to_ratings uid = Some current_user_ratings"
    and "map_of current_user_ratings test_mid \<noteq> None"
  shows "\<exists>others. all_other_user_ratings uid_to_ratings mid_to_uids test_mid = Inr others
           \<and> set others = {rs. \<exists>u. map_of uid_to_ratings u = Some rs \<and> map_of rs test_mid \<noteq> None}
           \<and> current_user_ratings \<in> set others"
proof -
  have agree: "rated_pairs uid_to_ratings = indexed_pairs mid_to_uids"
    by (rule load_ratings_agree [OF assms(1)])
  from assms(2,3) have "(uid, test_mid) \<in> rated_pairs uid_to_ratings"
    by (auto simp: rated_pairs_def)
  with agree obtain us where us: "map_of mid_to_uids test_mid = Some us" and "uid \<in> set us"
    by (auto simp: indexed_pairs_def)
  have members: "u \<in> set us \<longleftrightarrow> (\<exists>rs. map_of uid_to_ratings u = Some rs \<and> map_of rs test_mid \<noteq> None)" for u
    using agree us by (auto simp: rated_pairs_def indexed_pairs_def set_eq_iff)
  then have "\<forall>u \<in> set us. map_of uid_to_ratings u \<noteq> None"
    by auto
  then have each: "lookup_each uid_to_ratings us = Inr (map (\<lambda>u. the (map_of uid_to_ratings u)) us)"
    by (rule lookup_each_defined)
  let ?others = "map (\<lambda>u. the (map_of uid_to_ratings u)) us"
  have 1: "all_other_user_ratings uid_to_ratings mid_to_uids test_mid = Inr ?others"
    by (simp add: all_other_user_ratings_def lookup_def us and_then_def each)
  have 2: "set ?others = {rs. \<exists>u. map_of uid_to_ratings u = Some rs \<and> map_of rs test_mid \<noteq> None}"
    using members by force
  have 3: "current_user_ratings \<in> set ?others"
    unfolding 2 using assms(2,3) by blast
  from 1 2 3 show ?thesis by blast
qed

theorem own_vector_in_population_witness:
  "load_ratings [(''u1'', ''m1'', 5), (''u1'', ''m2'', 3), (''u2'', ''m1'', 4)]
     = ([(''u1'', [(''m1'', 5), (''m2'', 3)]), (''u2'', [(''m1'', 4)])],
        [(''m1'', [''u1'', ''u2'']), (''m2'', [''u1''])])
   \<and> map_of [(''u1'', [(''m1'', 5 :: real), (''m2'', 3)]), (''u2'', [(''m1'', 4)])] ''u1''
       = Some [(''m1'', 5), (''m2'', 3)]
   \<and> map_of [(''m1'', 5 :: real), (''m2'', 3)] ''m1'' \<noteq> None
   \<and> all_other_user_ratings [(''u1'', [(''m1'', 5), (''m2'', 3)]), (''u2'', [(''m1'', 4)])]
        [(''m1'', [''u1'', ''u2'']), (''m2'', [''u1''])] ''m1''
       = Inr [[(''m1'', 5), (''m2'', 3)], [(''m1'', 4)]]"
  using own_vector_in_population [of "[(''u1'', ''m1'', 5), (''u1'', ''m2'', 3), (''u2'', ''m1'', 4)]"
      "[(''u1'', [(''m1'', 5), (''m2'', 3)]), (''u2'', [(''m1'', 4)])]"
      "[(''m1'', [''u1'', ''u2'']), (''m2'', [''u1''])]" "''u1''" "[(''m1'', 5), (''m2'', 3)]" "''m1''"]
  by (simp add: load_ratings_def add_rating_def add_uid_def all_other_user_ratings_def lookup_def and_then_def)

section \<open>The similarity measure of the genre mode\<close>

lemma example_vectors: "vectors_movies
     (\<lambda>genre. tf_idf [(''Action'', 1), (''Comedy'', 2)] genre [(''Action'', 1), (''Comedy'', 1)] 1 False False True True)
     (\<lambda>genre. tf_idf [(''Action'', 2), (''Comedy'', 1)] genre [(''Action'', 1), (''Comedy'', 1)] 1 False False True True)
     (map_of [(''m1'', \<lparr>title = ''One'', genres = [''Action'']\<rparr>),
             (''m2'', \<lparr>title = ''Two'', genres = [''Action'', ''Comedy'']\<rparr>),
             (''t'', \<lparr>title = ''Target'', genres = [''Comedy'']\<rparr>)])
     [(''m1'', 4), (''m2'', 2)] ([], [])
   = Inr ([(''Action'', ln 2 * ln 2), (''Comedy'', ln 3 * ln 2)], [(''Action'', ln 3 * ln 2), (''Comedy'', ln 2 * ln 2)])"
  by (simp add: model_defs)

lemma pearson_swap:
  assumes "x \<noteq> y" and "a \<noteq> b"
  shows "pearson_correlation [(a, x), (b, y)] [(a, y), (b, x)] ((x + y) / 2) ((y + x) / 2) = Inr (- 1)"
proof -
  define D where "D = ((x - y) / 2)\<^sup>2"
  have Dpos: "0 < D"
    using assms(1) by (simp add: D_def)
  have numer: "fold (\<lambda>(mid, our_rating) numer.
                  case map_of [(a, y), (b, x)] mid of
                    Some other_rating \<Rightarrow>
                      numer + (our_rating - (x + y) / 2) * (other_rating - (y + x) / 2)
                  | None \<Rightarrow> numer) [(a, x), (b, y)] 0 = - (2 * D)"
    using assms(2) by (simp add: D_def power2_eq_square field_simps)
  have dA: "sum_list (map (\<lambda>(_, rating). (rating - (x + y) / 2)\<^sup>2) [(a, x), (b, y)]) = 2 * D"
    by (simp add: D_def power2_eq_square field_simps)
  have dB: "sum_list (map (\<lambda>(_, rating). (rating - (y + x) / 2)\<^sup>2) [(a, y), (b, x)]) = 2 * D"
    by (simp add: D_def power2_eq_square field_simps)
  have root: "sqrt (2 * D * (2 * D)) = 2 * D"
  proof -
    have "sqrt (2 * D * (2 * D)) = \<bar>2 * D\<bar>"
      by (rule real_sqrt_abs2)
    with Dpos show ?thesis
      by simp
  qed
  have "pearson_correlation [(a, x), (b, y)] [(a, y), (b, x)] ((x + y) / 2) ((y + x) / 2)
      = (if 2 * D * (2 * D) = 0 then Inr 0
         else and_then (py_sqrt (2 * D * (2 * D))) (py_div (- (2 * D))))"
    unfolding pearson_correlation_def numer dA dB Let_def ..
  also have "\<dots> = and_then (Inr (2 * D)) (py_div (- (2 * D)))"
    using Dpos root by (simp add: py_sqrt_def del: real_sqrt_mult_self)
  also have "\<dots> = Inr (- 1)"
    using Dpos by (simp add: and_then_def py_div_def)
  finally show ?thesis .
qed

text \<open>
  Claim C2 says that in genre mode the caller's flags select the measure applied to the two
  tf-idf vectors: Pearson correlation when neither \<^verbatim>\<open>cosine\<close> nor \<^verbatim>\<open>euclidean\<close> is set.
  The call passes \<^verbatim>\<open>our_avg\<close> and \<^verbatim>\<open>other_avg\<close> where \<^verbatim>\<open>get_genre_weight\<close> expects these
  flags. At the input below the caller sets neither flag and \<^verbatim>\<open>our_avg\<close> is 3: the weight
  the code computes is the cosine similarity of the two tf-idf vectors and the prediction is
  \<open>3 + 1 = 4\<close>, while the Pearson correlation of the same two vectors (what
  \<^verbatim>\<open>get_genre_weight\<close> returns when both of its flags are false) is \<open>- 1\<close>, which would
  give \<open>3 - 1 = 2\<close>.
\<close>

theorem genre_mode_measure_at_failing_input:
  "get_rating ''t''
     (map_of [(''m1'', \<lparr>title = ''One'', genres = [''Action'']\<rparr>),
             (''m2'', \<lparr>title = ''Two'', genres = [''Action'', ''Comedy'']\<rparr>),
             (''t'', \<lparr>title = ''Target'', genres = [''Comedy'']\<rparr>)])
     [(''m1'', 4), (''m2'', 2)] [[(''m2'', 3), (''t'', 5)]] 3 True False False = Inr 4
   \<and> weight_of
       (map_of [(''m1'', \<lparr>title = ''One'', genres = [''Action'']\<rparr>),
               (''m2'', \<lparr>title = ''Two'', genres = [''Action'', ''Comedy'']\<rparr>),
               (''t'', \<lparr>title = ''Target'', genres = [''Comedy'']\<rparr>)])
       [(''m1'', 4), (''m2'', 2)] 3 True False False [(''Action'', 1), (''Comedy'', 1)] 1
       [(''Action'', 2), (''Comedy'', 1)] [(''m2'', 3), (''t'', 5)] 4
     = cosine_similarity [(''Action'', ln 3 * ln 2), (''Comedy'', ln 2 * ln 2)]
         [(''Action'', ln 2 * ln 2), (''Comedy'', ln 3 * ln 2)]
   \<and> get_genre_weight [(''m1'', 4), (''m2'', 2)] [(''m2'', 3), (''t'', 5)]
       [(''Action'', 2), (''Comedy'', 1)]
       (map_of [(''m1'', \<lparr>title = ''One'', genres = [''Action'']\<rparr>),
               (''m2'', \<lparr>title = ''Two'', genres = [''Action'', ''Comedy'']\<rparr>),
               (''t'', \<lparr>title = ''Target'', genres = [''Comedy'']\<rparr>)])
       [(''Action'', 1), (''Comedy'', 1)] 1 False False False False True True = Inr (- 1)"
proof (intro conjI)
  let ?movies = "map_of [(''m1'', \<lparr>title = ''One'', genres = [''Action'']\<rparr>),
             (''m2'', \<lparr>title = ''Two'', genres = [''Action'', ''Comedy'']\<rparr>),
             (''t'', \<lparr>title = ''Target'', genres = [''Comedy'']\<rparr>)]"
  show "get_rating ''t'' ?movies [(''m1'', 4), (''m2'', 2)] [[(''m2'', 3), (''t'', 5)]] 3 True False False
      = Inr 4"
    by (simp add: model_defs not_less sum_power2_ge_zero)
  have gf: "get_genre_frequencies [(''m2'', 3), (''t'', 5)] ?movies = Inr [(''Action'', 1), (''Comedy'', 2)]"
    by (simp add: get_genre_frequencies_def increment_def)
  show "weight_of ?movies [(''m1'', 4), (''m2'', 2)] 3 True False False [(''Action'', 1), (''Comedy'', 1)] 1
       [(''Action'', 2), (''Comedy'', 1)] [(''m2'', 3), (''t'', 5)] 4
     = cosine_similarity [(''Action'', ln 3 * ln 2), (''Comedy'', ln 2 * ln 2)]
         [(''Action'', ln 2 * ln 2), (''Comedy'', ln 3 * ln 2)]"
    unfolding weight_of_def get_genre_weight_def gf
    by (simp only: and_then_def sum.case example_vectors prod.case) simp
  have ne: "ln 3 * ln 2 \<noteq> ln 2 * (ln 2 :: real)"
    by simp
  have pc: "pearson_correlation
      [(''Action'', ln 3 * ln 2), (''Comedy'', ln 2 * ln 2)]
      [(''Action'', ln 2 * ln 2), (''Comedy'', ln 3 * ln 2)]
      ((ln 3 * ln 2 + ln 2 * ln 2) / 2) ((ln 2 * ln 2 + ln 3 * ln 2) / 2) = Inr (- 1)"
    by (rule pearson_swap [OF ne]) simp
  show "get_genre_weight [(''m1'', 4), (''m2'', 2)] [(''m2'', 3), (''t'', 5)]
       [(''Action'', 2), (''Comedy'', 1)] ?movies
       [(''Action'', 1), (''Comedy'', 1)] 1 False False False False True True = Inr (- 1)"
    unfolding get_genre_weight_def gf
    by (simp only: and_then_def sum.case example_vectors prod.case if_False) (simp add: py_div_def pc)
qed

section \<open>The predicted rating\<close>

lemma average_neighbour:
  "map_of neighbour mid = Some r \<Longrightarrow>
   py_div (sum_list (map snd neighbour)) (real (length neighbour)) = Inr (average neighbour)"
  by (cases neighbour) (simp_all add: py_div_def average_def)

lemma rating_loop_defined:
  "\<forall>neighbour \<in> set (neighbours_of mid others). \<exists>w. weight_fn neighbour (average neighbour) = Inr w \<Longrightarrow>
   rating_loop weight_fn mid others (numer, denom) =
     Inr (numer + sum_list (map (\<lambda>neighbour. deviation mid neighbour * projr (weight_fn neighbour (average neighbour)))
                         (neighbours_of mid others)),
          denom + sum_list (map (\<lambda>neighbour. \<bar>projr (weight_fn neighbour (average neighbour))\<bar>)
                         (neighbours_of mid others)))"
proof (induction others arbitrary: numer denom)
  case Nil
  then show ?case by (simp add: neighbours_of_def)
next
  case (Cons neighbour others)
  from Cons.prems have rest: "\<forall>neighbour \<in> set (neighbours_of mid others). \<exists>w. weight_fn neighbour (average neighbour) = Inr w"
    by (simp add: neighbours_of_def)
  show ?case
  proof (cases "map_of neighbour mid")
    case None
    with Cons.IH [OF rest] show ?thesis
      by (simp add: neighbours_of_def)
  next
    case (Some r)
    with Cons.prems obtain w where w: "weight_fn neighbour (average neighbour) = Inr w"
      by (auto simp: neighbours_of_def)
    from Some w Cons.IH [OF rest] show ?thesis
      by (simp add: neighbours_of_def average_neighbour [OF Some] and_then_def deviation_def algebra_simps)
  qed
qed

lemma rating_loop_fails:
  assumes "\<And>neighbour e. weight_fn neighbour (average neighbour) = Inl e \<Longrightarrow> e = ZeroDivisionError"
  shows "\<not> (\<forall>neighbour \<in> set (neighbours_of mid others). \<exists>w. weight_fn neighbour (average neighbour) = Inr w) \<Longrightarrow>
   rating_loop weight_fn mid others (numer, denom) = Inl ZeroDivisionError"
proof (induction others arbitrary: numer denom)
  case Nil
  then show ?case by (simp add: neighbours_of_def)
next
  case (Cons neighbour others)
  show ?case
  proof (cases "map_of neighbour mid")
    case None
    with Cons.prems have "\<not> (\<forall>neighbour \<in> set (neighbours_of mid others). \<exists>w. weight_fn neighbour (average neighbour) = Inr w)"
      by (simp add: neighbours_of_def)
    from Cons.IH [OF this] None show ?thesis
      by simp
  next
    case (Some r)
    show ?thesis
    proof (cases "weight_fn neighbour (average neighbour)")
      case (Inl e)
      with assms have "e = ZeroDivisionError" by blast
      with Inl Some show ?thesis
        by (simp add: average_neighbour [OF Some] and_then_def)
    next
      case (Inr w)
      with Cons.prems Some
      have "\<not> (\<forall>neighbour \<in> set (neighbours_of mid others). \<exists>w. weight_fn neighbour (average neighbour) = Inr w)"
        by (simp add: neighbours_of_def)
      from Cons.IH [OF this] Inr Some show ?thesis
        by (simp add: average_neighbour [OF Some] and_then_def)
    qed
  qed
qed

lemma pearson_correlation_defined: "\<exists>w. pearson_correlation a b ma mb = Inr w"
proof -
  have "0 \<le> sum_list (map (\<lambda>(_, rating). (rating - ma)\<^sup>2) a)
           * sum_list (map (\<lambda>(_, rating). (rating - mb)\<^sup>2) b)"
    by (intro mult_nonneg_nonneg sum_list_squares_nonneg)
  then show ?thesis
    unfolding pearson_correlation_def Let_def
    by (simp add: and_then_def py_sqrt_def py_div_def)
qed

lemma euclidean_distance_defined: "\<exists>w. euclidean_distance a b = Inr w"
proof -
  have "0 \<le> sum_list (map (\<lambda>(key, our_score). (our_score - the (map_of b key))\<^sup>2)
                (filter (\<lambda>(key, our_score). map_of b key \<noteq> None) a))"
    by (rule sum_list_nonneg) auto
  then show ?thesis
    by (simp add: euclidean_distance_def py_sqrt_def)
qed

lemma cosine_similarity_error: "cosine_similarity a b = Inl e \<Longrightarrow> e = ZeroDivisionError"
  unfolding cosine_similarity_def Let_def
  using sum_list_norm_nonneg [of a] sum_list_norm_nonneg [of b]
  by (simp add: and_then_def py_sqrt_def py_div_def split: if_splits)

lemma weight_of_error:
  "weight_of movies our our_avg False cosine euclidean corpus n gf neighbour other_avg = Inl e
   \<Longrightarrow> e = ZeroDivisionError"
  using pearson_correlation_defined [of our neighbour our_avg other_avg]
    euclidean_distance_defined [of our neighbour]
  by (auto simp: weight_of_def dest: cosine_similarity_error split: if_splits)

text \<open>
  Claim C3, as the specification states it, covers every mode and makes \<^verbatim>\<open>get_rating\<close> fail
  exactly when the accumulated absolute weight is zero. In cosine mode the first neighbour
  below has weight \<open>3 / 5\<close>, the second one has a zero norm, and \<^verbatim>\<open>get_rating\<close> fails
  with a division error raised by \<^verbatim>\<open>cosine_similarity\<close> although the weight accumulated is
  not zero. In genre mode the only neighbour rated the target item 5 against an average of 4,
  so the formula gives \<open>4 + 1\<close> or \<open>4 - 1\<close> for whatever non-zero weight; the code returns
  2, because the corpus loop has left \<^verbatim>\<open>mid\<close> on the last item of that neighbour, rated 2.
\<close>

theorem get_rating_counterexample:
  "cosine_similarity [(''m1'', 3)] [(''t'', 4), (''m1'', 3)] = Inr (3 / 5)
   \<and> cosine_similarity [(''m1'', 3)] [(''t'', 0)] = Inl ZeroDivisionError
   \<and> get_rating ''t'' (\<lambda>_. None) [(''m1'', 3)] [[(''t'', 4), (''m1'', 3)], [(''t'', 0)]] 3 False True False
       = Inl ZeroDivisionError
   \<and> get_rating ''t''
        (map_of [(''m1'', \<lparr>title = ''One'', genres = [''Drama'']\<rparr>),
                (''m2'', \<lparr>title = ''Two'', genres = [''Drama'']\<rparr>),
                (''t'', \<lparr>title = ''Target'', genres = [''Drama'']\<rparr>)])
        [(''m1'', 4)] [[(''t'', 5), (''m2'', 5), (''m1'', 2)]] 4 True False False
       = Inr 2"
  by (simp add: model_defs sqrt_25)

text \<open>
  Claim C3, amended. In the Pearson, cosine and Euclidean modes (genre mode aside), for every
  target item, primary vector, primary average and population: when the weight of every
  neighbour whose vector contains the target item is defined, \<^verbatim>\<open>get_rating\<close> returns
  \<open>primary_avg + \<Sum> deviation * weight / \<Sum> \<bar>weight\<bar>\<close>, both sums over exactly those
  neighbours, and fails with a division error exactly when the accumulated absolute weight is
  zero; when the weight of one of these neighbours is not defined, it fails with a division
  error. In the Pearson and Euclidean modes every weight is defined.
\<close>

theorem get_rating_weighted_deviation:
  "get_rating mid movies our_user_ratings others our_avg False cosine euclidean =
     (if \<forall>neighbour \<in> set (neighbours_of mid others).
           \<exists>w. weight_of movies our_user_ratings our_avg False cosine euclidean [] 0 [] neighbour (average neighbour) = Inr w
      then spec_prediction
             (\<lambda>neighbour. projr (weight_of movies our_user_ratings our_avg False cosine euclidean [] 0 []
                                neighbour (average neighbour)))
             mid our_avg others
      else Inl ZeroDivisionError)
   \<and> (\<not> cosine \<longrightarrow>
        (\<forall>neighbour \<in> set (neighbours_of mid others).
           \<exists>w. weight_of movies our_user_ratings our_avg False cosine euclidean [] 0 [] neighbour (average neighbour) = Inr w))"
proof
  let ?wt = "weight_of movies our_user_ratings our_avg False cosine euclidean [] 0 []"
  let ?ok = "\<forall>neighbour \<in> set (neighbours_of mid others). \<exists>w. ?wt neighbour (average neighbour) = Inr w"
  have unfold: "get_rating mid movies our_user_ratings others our_avg False cosine euclidean =
      and_then (rating_loop ?wt mid others (0, 0))
        (\<lambda>(numer, denom). and_then (py_div numer denom) (\<lambda>q. Inr (our_avg + q)))"
    by (simp add: get_rating_def and_then_def)
  show "get_rating mid movies our_user_ratings others our_avg False cosine euclidean =
     (if ?ok then spec_prediction (\<lambda>neighbour. projr (?wt neighbour (average neighbour))) mid our_avg others
      else Inl ZeroDivisionError)"
  proof (cases ?ok)
    case True
    from rating_loop_defined [where weight_fn = ?wt and mid = mid and others = others
        and numer = 0 and denom = 0, OF True] True show ?thesis
      unfolding unfold by (simp add: and_then_def spec_prediction_def py_div_def Let_def)
  next
    case False
    have loop: "rating_loop ?wt mid others (0, 0) = Inl ZeroDivisionError"
      by (rule rating_loop_fails [where weight_fn = ?wt, OF weight_of_error False])
    show ?thesis
      unfolding unfold loop if_not_P [OF False] by (simp add: and_then_def)
  qed
  show "\<not> cosine \<longrightarrow> ?ok"
    using pearson_correlation_defined euclidean_distance_defined
    by (simp add: weight_of_def)
qed

theorem get_rating_weighted_deviation_witness:
  "get_rating ''t'' (\<lambda>_. None) [(''m1'', 3)] [[(''t'', 4), (''m1'', 3)], [(''m2'', 1)]] 3 False True False
     = Inr (7 / 2)"
proof -
  let ?others = "[[(''t'', 4), (''m1'', 3)], [(''m2'', 1 :: real)]]"
  let ?wt = "weight_of (\<lambda>_. None) [(''m1'', 3)] 3 False True False [] 0 []"
  have nb: "neighbours_of ''t'' ?others = [[(''t'', 4), (''m1'', 3)]]"
    by (simp add: neighbours_of_def)
  have avg: "average [(''t'', 4), (''m1'', 3)] = 7 / 2"
    by (simp add: average_def)
  have w: "?wt [(''t'', 4), (''m1'', 3)] (7 / 2) = Inr (3 / 5)"
    by (simp add: weight_of_def cosine_similarity_def and_then_def py_sqrt_def py_div_def sqrt_25)
  have ok: "\<forall>neighbour \<in> set (neighbours_of ''t'' ?others). \<exists>w. ?wt neighbour (average neighbour) = Inr w"
    unfolding nb using w by (simp only: list.set ball_simps avg) blast
  have "get_rating ''t'' (\<lambda>_. None) [(''m1'', 3)] ?others 3 False True False
      = spec_prediction (\<lambda>neighbour. projr (?wt neighbour (average neighbour))) ''t'' 3 ?others"
    using get_rating_weighted_deviation [of "''t''" "\<lambda>_. None" "[(''m1'', 3)]" ?others 3 True False]
    unfolding if_P [OF ok] by (rule conjunct1)
  also have "\<dots> = Inr (7 / 2)"
    unfolding spec_prediction_def nb by (simp add: avg w deviation_def)
  finally show ?thesis .
qed

section \<open>Failed predictions in the cross-validation\<close>

text \<open>
  A division error of a prediction never leaves the round of one held-out item, and the round
  of the Pearson mode then takes one off that mode's count and leaves its sum alone (the
  three other modes are handled by the same \<open>score\<close>).
\<close>

lemma score_error: "score real_rating prediction acc = Inl e \<Longrightarrow> e \<noteq> ZeroDivisionError"
  by (cases prediction; cases acc) (auto simp: score_def split: pyerror.splits)

lemma lookup_error: "lookup d k = Inl e \<Longrightarrow> e = KeyError"
  by (auto simp: lookup_def split: option.splits)

lemma lookup_each_error: "lookup_each d ks = Inl e \<Longrightarrow> e = KeyError"
  by (induction ks arbitrary: e) (auto simp: and_then_def split: sum.splits dest: lookup_error)

lemma leave_one_out_catches:
  assumes "filter (\<lambda>(mid, rating). mid \<noteq> test_mid) current_user_ratings \<noteq> []"
  shows "leave_one_out movies uid_to_ratings mid_to_uids current_user_ratings test_mid t
           \<noteq> Inl ZeroDivisionError"
proof
  assume failed: "leave_one_out movies uid_to_ratings mid_to_uids current_user_ratings test_mid t
           = Inl ZeroDivisionError"
  from failed assms show False
    unfolding leave_one_out_def all_other_user_ratings_def Let_def
    by (auto simp: and_then_def py_div_def split: sum.splits prod.splits
        dest: score_error lookup_error lookup_each_error)
qed

lemma leave_one_out_pearson_failure:
  assumes "leave_one_out movies uid_to_ratings mid_to_uids current_user_ratings test_mid t = Inr t'"
    and "all_other_user_ratings uid_to_ratings mid_to_uids test_mid = Inr others"
    and "get_rating test_mid movies (filter (\<lambda>(mid, rating). mid \<noteq> test_mid) current_user_ratings) others
           (sum_list (map snd (filter (\<lambda>(mid, rating). mid \<noteq> test_mid) current_user_ratings))
              / real (length (filter (\<lambda>(mid, rating). mid \<noteq> test_mid) current_user_ratings)))
           False False False = Inl ZeroDivisionError"
  shows "pearson_length t' = pearson_length t - 1 \<and> pearson_dif t' = pearson_dif t"
  using assms unfolding leave_one_out_def Let_def
  by (auto simp: and_then_def py_div_def score_def split: sum.splits prod.splits if_splits)

text \<open>
  Claim C6 says that after a prediction has failed with a division by zero and its mode's
  count has been decremented, the run never aborts. The ratings file below has one user with
  two ratings, and the user is sampled. Both Pearson predictions fail (as do both Euclidean
  ones) and are caught: the loop over the users ends with the Pearson count at 0, and the
  final \<^verbatim>\<open>sqrt(pearson_dif / pearson_length)\<close> raises the division error that ends the run.
\<close>

theorem cross_validation_aborts_at_failing_input:
  "user_loop (50 / 100)
     (map_of [(''m1'', \<lparr>title = ''One'', genres = [''Drama'']\<rparr>),
             (''m2'', \<lparr>title = ''Two'', genres = [''Drama'']\<rparr>)])
     [(''u1'', [(''m1'', 5), (''m2'', 3)])] [(''m1'', [''u1'']), (''m2'', [''u1''])]
     [(''u1'', [(''m1'', 5), (''m2'', 3)])] (\<lambda>_. 0)
     (0, \<lparr>cosine_dif = 0, pearson_dif = 0, euclidean_dif = 0, genre_dif = 0,
          cosine_length = 0, pearson_length = 0, euclidean_length = 0, genre_length = 0\<rparr>)
   = Inr (1, \<lparr>cosine_dif = 2, pearson_dif = 0, euclidean_dif = 0, genre_dif = 10,
              cosine_length = 2, pearson_length = 0, euclidean_length = 0, genre_length = 2\<rparr>)
   \<and> calculate_rmse_for_each_distance_measure 50
       (map_of [(''m1'', \<lparr>title = ''One'', genres = [''Drama'']\<rparr>),
               (''m2'', \<lparr>title = ''Two'', genres = [''Drama'']\<rparr>)])
       [(''u1'', ''m1'', 5), (''u1'', ''m2'', 3)] (\<lambda>_. 0)
     = Inl ZeroDivisionError"
  by (simp add: calculate_rmse_for_each_distance_measure_def load_ratings_def add_rating_def
      add_uid_def model_defs)

end
